theory Spec2Isabelle
  imports Complex_Main "HOL-Library.AList"
begin

section \<open>Python values\<close>

text \<open>
  A Python \<open>str\<close> is a sequence of Unicode code points. The classifier's label keys are
  Chinese, so a string is a list of code points here, not a list of bytes; ASCII literals of
  the source are written with \<open>ascii\<close>.
\<close>

type_synonym pystr = "nat list"

definition ascii :: "string \<Rightarrow> pystr" where
  "ascii s = map of_char s"

text \<open>
  A Python \<open>float\<close>: a finite value, an infinity or NaN. The finite values are modelled as
  reals; the program never does arithmetic on a score, it only compares scores with the
  constants \<open>0.0\<close>, \<open>1.0\<close> and \<open>1.2\<close> and passes them on. Every comparison with NaN is false.
\<close>

datatype pynum = Fin real | PInf | NInf | NaN

fun num_lt :: "pynum \<Rightarrow> pynum \<Rightarrow> bool" where
  "num_lt NaN b = False"
| "num_lt a NaN = False"
| "num_lt (Fin x) (Fin y) = (x < y)"
| "num_lt (Fin x) PInf = True"
| "num_lt (Fin x) NInf = False"
| "num_lt PInf b = False"
| "num_lt NInf NInf = False"
| "num_lt NInf b = True"

fun num_le :: "pynum \<Rightarrow> pynum \<Rightarrow> bool" where
  "num_le NaN b = False"
| "num_le a NaN = False"
| "num_le (Fin x) (Fin y) = (x \<le> y)"
| "num_le (Fin x) PInf = True"
| "num_le (Fin x) NInf = False"
| "num_le PInf PInf = True"
| "num_le PInf b = False"
| "num_le NInf b = True"

text \<open>
  The built-ins \<open>min(a, b)\<close> and \<open>max(a, b)\<close> keep their first argument unless the second
  is strictly smaller (strictly greater).
\<close>

definition py_min :: "pynum \<Rightarrow> pynum \<Rightarrow> pynum" where
  "py_min a b = (if num_lt b a then b else a)"

definition py_max :: "pynum \<Rightarrow> pynum \<Rightarrow> pynum" where
  "py_max a b = (if num_lt a b then b else a)"

text \<open>
  The objects that \<open>json.loads\<close> can return, which are also the objects a score mapping can
  hold. A \<open>dict\<close> is an association list in insertion order; the first binding of a key is
  the key's value.
\<close>

datatype pyval =
    PyNone
  | PyBool bool
  | PyInt int
  | PyFloat pynum
  | PyStr pystr
  | PyList "pyval list"
  | PyDict "(pystr \<times> pyval) list"

text \<open>
  The exceptions of the program. \<open>JSONDecodeError\<close> is a subclass of \<open>ValueError\<close>;
  \<open>KeyboardInterrupt\<close> and \<open>SystemExit\<close> are the exceptions that are not instances of
  \<open>Exception\<close>, which an \<open>except Exception\<close> clause lets through.
\<close>

datatype exc =
    JSONDecodeError
  | ValueError string
  | TypeError
  | OverflowError
  | AttributeError
  | KeyError
  | OtherException string
  | KeyboardInterrupt
  | SystemExit

fun is_Exception :: "exc \<Rightarrow> bool" where
  "is_Exception KeyboardInterrupt = False"
| "is_Exception SystemExit = False"
| "is_Exception e = True"

text \<open>The number a value stands for in a comparison with a float; \<open>bool\<close> is an \<open>int\<close>.\<close>

fun number :: "pyval \<Rightarrow> pynum option" where
  "number (PyBool b) = Some (Fin (if b then 1 else 0))"
| "number (PyInt i) = Some (Fin (of_int i))"
| "number (PyFloat f) = Some f"
| "number v = None"

text \<open>\<open>obj.get(key, default)\<close>: only a \<open>dict\<close> has the method.\<close>

fun dict_get :: "pyval \<Rightarrow> pystr \<Rightarrow> pyval \<Rightarrow> exc + pyval" where
  "dict_get (PyDict kvs) k d = Inr (case map_of kvs k of None \<Rightarrow> d | Some v \<Rightarrow> v)"
| "dict_get obj k d = Inl AttributeError"

text \<open>A comprehension evaluates its element for each item in turn; the first exception ends it.\<close>

fun traverse :: "('a \<Rightarrow> exc + 'b) \<Rightarrow> 'a list \<Rightarrow> exc + 'b list" where
  "traverse f [] = Inr []"
| "traverse f (x # xs) =
     (case f x of
        Inl e \<Rightarrow> Inl e
      | Inr y \<Rightarrow> (case traverse f xs of Inl e \<Rightarrow> Inl e | Inr ys \<Rightarrow> Inr (y # ys)))"

text \<open>A \<open>dict\<close> built from key-value pairs in order: a later pair replaces an earlier one.\<close>

definition dict_of :: "('k \<times> 'v) list \<Rightarrow> ('k \<times> 'v) list" where
  "dict_of ps = foldl (\<lambda>d (k, v). AList.update k v d) [] ps"

section \<open>The CPU classifier: \<open>CPUQwenEmotion\<close>\<close>

definition k_happy :: pystr where "k_happy = [39640, 20852]"
definition k_angry :: pystr where "k_angry = [24868, 24594]"
definition k_sad :: pystr where "k_sad = [24754, 20260]"
definition k_afraid :: pystr where "k_afraid = [24656, 24807]"
definition k_disgusted :: pystr where "k_disgusted = [21453, 24863]"
definition k_melancholic :: pystr where "k_melancholic = [20302, 33853]"
definition k_surprised :: pystr where "k_surprised = [24778, 35766]"
definition k_calm :: pystr where "k_calm = [33258, 28982]"

definition cn_key_to_en :: "(pystr \<times> pystr) list" where
  "cn_key_to_en =
     [(k_happy, ascii ''happy''),
      (k_angry, ascii ''angry''),
      (k_sad, ascii ''sad''),
      (k_afraid, ascii ''afraid''),
      (k_disgusted, ascii ''disgusted''),
      (k_melancholic, ascii ''melancholic''),
      (k_surprised, ascii ''surprised''),
      (k_calm, ascii ''calm'')]"

definition desired_vector_order :: "pystr list" where
  "desired_vector_order =
     [k_happy, k_angry, k_sad, k_afraid, k_disgusted, k_melancholic, k_surprised, k_calm]"

definition max_score :: pynum where
  "max_score = Fin 1.2"

definition min_score :: pynum where
  "min_score = Fin 0"

text \<open>
  \<open>clamp_score\<close>: \<open>max(self.min_score, min(self.max_score, value))\<close>. Comparing a float with
  \<open>None\<close>, a string, a list or a dict raises \<open>TypeError\<close>. The result is the number the
  returned object stands for.
\<close>

definition clamp :: "pynum \<Rightarrow> pynum" where
  "clamp v = py_max min_score (py_min max_score v)"

definition clamp_score :: "pyval \<Rightarrow> exc + pynum" where
  "clamp_score val = (case number val of None \<Rightarrow> Inl TypeError | Some v \<Rightarrow> Inr (clamp v))"

type_synonym emotion_dict = "(pystr \<times> pynum) list"

text \<open>One item of the comprehension in \<open>convert\<close>: the key expression, then the value.\<close>

definition convert_item :: "pyval \<Rightarrow> pystr \<Rightarrow> exc + (pystr \<times> pynum)" where
  "convert_item content cn_key =
     (case map_of cn_key_to_en cn_key of
        None \<Rightarrow> Inl KeyError
      | Some en \<Rightarrow>
          (case dict_get content cn_key (PyFloat (Fin 0)) of
             Inl e \<Rightarrow> Inl e
           | Inr val \<Rightarrow>
               (case clamp_score val of Inl e \<Rightarrow> Inl e | Inr s \<Rightarrow> Inr (en, s))))"

text \<open>The default of \<open>convert\<close>: a dict with no positive value gets \<open>calm = 1.0\<close>.\<close>

definition default_calm :: "emotion_dict \<Rightarrow> emotion_dict" where
  "default_calm emotion_dict =
     (if list_all (\<lambda>(k, val). num_le val (Fin 0)) emotion_dict
      then AList.update (ascii ''calm'') (Fin 1) emotion_dict
      else emotion_dict)"

definition convert :: "pyval \<Rightarrow> exc + emotion_dict" where
  "convert content =
     (case traverse (convert_item content) desired_vector_order of
        Inl e \<Rightarrow> Inl e
      | Inr pairs \<Rightarrow> Inr (default_calm (dict_of pairs)))"

subsection \<open>Score mappings\<close>

text \<open>
  The score \<open>convert\<close> reads for a label: the number bound to the label's key, \<open>0.0\<close> when
  the key is missing, nothing when the key is bound to an object that is not a number. A
  raw classification is a mapping in which every canonical label that is bound is bound to a
  number; \<open>clamped\<close> is the clamped score of a label.
\<close>

definition score :: "(pystr \<times> pyval) list \<Rightarrow> pystr \<Rightarrow> pynum option" where
  "score kvs k = number (case map_of kvs k of None \<Rightarrow> PyFloat (Fin 0) | Some v \<Rightarrow> v)"

definition raw_classification :: "(pystr \<times> pyval) list \<Rightarrow> bool" where
  "raw_classification kvs = list_all (\<lambda>k. score kvs k \<noteq> None) desired_vector_order"

definition clamped :: "(pystr \<times> pyval) list \<Rightarrow> pystr \<Rightarrow> pynum" where
  "clamped kvs k = (case score kvs k of None \<Rightarrow> Fin 0 | Some s \<Rightarrow> clamp s)"

definition in_range :: "pynum \<Rightarrow> bool" where
  "in_range v = (num_le (Fin 0) v \<and> num_le v (Fin 1.2))"

definition clamped_scores :: "(pystr \<times> pyval) list \<Rightarrow> emotion_dict" where
  "clamped_scores kvs =
     [(ascii ''happy'', clamped kvs k_happy),
      (ascii ''angry'', clamped kvs k_angry),
      (ascii ''sad'', clamped kvs k_sad),
      (ascii ''afraid'', clamped kvs k_afraid),
      (ascii ''disgusted'', clamped kvs k_disgusted),
      (ascii ''melancholic'', clamped kvs k_melancholic),
      (ascii ''surprised'', clamped kvs k_surprised),
      (ascii ''calm'', clamped kvs k_calm)]"

text \<open>
  The score of a label as a reader of a returned mapping sees it: the bound value, and
  \<open>0.0\<close> for a label the mapping does not bind, which is the default \<open>convert\<close> itself
  uses.
\<close>

definition emotion_score :: "emotion_dict \<Rightarrow> pystr \<Rightarrow> pynum" where
  "emotion_score d label = (case map_of d label of None \<Rightarrow> Fin 0 | Some v \<Rightarrow> v)"

definition all_nonpositive :: "(pystr \<times> pyval) list \<Rightarrow> bool" where
  "all_nonpositive kvs = list_all (\<lambda>k. num_le (clamped kvs k) (Fin 0)) desired_vector_order"

section \<open>Built-ins of the Python runtime\<close>

text \<open>
  The program calls \<open>json.loads\<close>, \<open>float\<close>, \<open>str.lower\<close> and the regular-expression class
  \<open>\d\<close>. They are not code of the repository; the model takes them as parameters, so that
  every theorem holds for whatever they compute:
  \<^item> \<open>json_loads\<close>: the decoded object, or nothing for \<open>JSONDecodeError\<close>;
  \<^item> \<open>float_of_str\<close>: \<open>float(s)\<close> of a string, or nothing for \<open>ValueError\<close>;
  \<^item> \<open>float_of_int\<close>: \<open>float(i)\<close> of an integer, or nothing for \<open>OverflowError\<close>;
  \<^item> \<open>is_decimal\<close>: the code points \<open>\d\<close> matches (the Unicode decimal digits);
  \<^item> \<open>str_lower\<close>: \<open>s.lower()\<close>.
\<close>

record builtins =
  json_loads :: "pystr \<Rightarrow> pyval option"
  float_of_str :: "pystr \<Rightarrow> pynum option"
  float_of_int :: "int \<Rightarrow> pynum option"
  is_decimal :: "nat \<Rightarrow> bool"
  str_lower :: "pystr \<Rightarrow> pystr"

text \<open>
  \<open>str.isspace\<close> of one code point, which is also what \<open>\s\<close> matches in a \<open>str\<close> pattern
  and what \<open>str.strip()\<close> removes.
\<close>

definition isspace :: "nat \<Rightarrow> bool" where
  "isspace c =
     ((9 \<le> c \<and> c \<le> 13) \<or> (28 \<le> c \<and> c \<le> 32) \<or> c = 133 \<or> c = 160 \<or> c = 5760
      \<or> (8192 \<le> c \<and> c \<le> 8202) \<or> c = 8232 \<or> c = 8233 \<or> c = 8239 \<or> c = 8287
      \<or> c = 12288)"

definition strip :: "pystr \<Rightarrow> pystr" where
  "strip s = rev (dropWhile isspace (rev (dropWhile isspace s)))"

text \<open>\<open>s.split(sep)\<close> for a separator of one code point: the empty string gives one empty part.\<close>

fun split :: "nat \<Rightarrow> pystr \<Rightarrow> pystr list" where
  "split sep [] = [[]]"
| "split sep (c # cs) =
     (if c = sep then [] # split sep cs
      else (case split sep cs of [] \<Rightarrow> [[c]] | tok # toks \<Rightarrow> (c # tok) # toks))"

text \<open>\<open>word in s\<close> for strings: \<open>word\<close> occurs in \<open>s\<close> as a contiguous run.\<close>

fun is_prefix :: "pystr \<Rightarrow> pystr \<Rightarrow> bool" where
  "is_prefix [] s = True"
| "is_prefix (w # ws) [] = False"
| "is_prefix (w # ws) (c # cs) = (w = c \<and> is_prefix ws cs)"

fun contains :: "pystr \<Rightarrow> pystr \<Rightarrow> bool" where
  "contains word [] = (word = [])"
| "contains word (c # cs) = (is_prefix word (c # cs) \<or> contains word cs)"

text \<open>
  The built-in \<open>float(obj)\<close>: a number converts, a string is parsed, and \<open>None\<close>, a list or a
  dict raise \<open>TypeError\<close>.
\<close>

fun py_float :: "builtins \<Rightarrow> pyval \<Rightarrow> exc + pynum" where
  "py_float B PyNone = Inl TypeError"
| "py_float B (PyBool b) = Inr (Fin (if b then 1 else 0))"
| "py_float B (PyInt i) =
     (case float_of_int B i of None \<Rightarrow> Inl OverflowError | Some f \<Rightarrow> Inr f)"
| "py_float B (PyFloat f) = Inr f"
| "py_float B (PyStr s) =
     (case float_of_str B s of
        None \<Rightarrow> Inl (ValueError ''could not convert string to float'')
      | Some f \<Rightarrow> Inr f)"
| "py_float B (PyList xs) = Inl TypeError"
| "py_float B (PyDict kvs) = Inl TypeError"

text \<open>The truth value of an object, as \<open>not values\<close> tests it.\<close>

fun truthy :: "pyval \<Rightarrow> bool" where
  "truthy PyNone = False"
| "truthy (PyBool b) = b"
| "truthy (PyInt i) = (i \<noteq> 0)"
| "truthy (PyFloat f) = (f \<noteq> Fin 0)"
| "truthy (PyStr s) = (s \<noteq> [])"
| "truthy (PyList xs) = (xs \<noteq> [])"
| "truthy (PyDict kvs) = (kvs \<noteq> [])"

text \<open>
  The items a \<open>for\<close> loop reads from an object: the elements of a list, the keys of a dict,
  the characters of a string; the other objects are not iterable.
\<close>

fun iterate :: "pyval \<Rightarrow> exc + pyval list" where
  "iterate (PyList xs) = Inr xs"
| "iterate (PyDict kvs) = Inr (map (\<lambda>kv. PyStr (fst kv)) kvs)"
| "iterate (PyStr s) = Inr (map (\<lambda>c. PyStr [c]) s)"
| "iterate obj = Inl TypeError"

text \<open>\<open>obj[key] = value\<close> with a string key: only a dict takes it.\<close>

fun dict_set :: "pyval \<Rightarrow> pystr \<Rightarrow> pyval \<Rightarrow> exc + pyval" where
  "dict_set (PyDict kvs) k v = Inr (PyDict (AList.update k v kvs))"
| "dict_set obj k v = Inl TypeError"

section \<open>\<open>_parse_vector\<close>\<close>

definition invalid_vector_format :: exc where
  "invalid_vector_format =
     ValueError ''Could not parse emotion_vector; use JSON or comma separated numbers''"

text \<open>The clause \<open>except (ValueError, json.JSONDecodeError)\<close>.\<close>

fun is_ValueError :: "exc \<Rightarrow> bool" where
  "is_ValueError (ValueError msg) = True"
| "is_ValueError JSONDecodeError = True"
| "is_ValueError e = False"

text \<open>The body of the \<open>try\<close> block: \<open>raw\<close> is stripped and not empty.\<close>

definition try_values :: "builtins \<Rightarrow> pystr \<Rightarrow> exc + pyval" where
  "try_values B raw =
     (if is_prefix [91] raw
      then (case json_loads B raw of None \<Rightarrow> Inl JSONDecodeError | Some values \<Rightarrow> Inr values)
      else (case traverse (\<lambda>tok. py_float B (PyStr tok))
                   (filter (\<lambda>tok. strip tok \<noteq> []) (split 44 raw)) of
              Inl e \<Rightarrow> Inl e
            | Inr fs \<Rightarrow> Inr (PyList (map PyFloat fs))))"

definition parse_vector :: "builtins \<Rightarrow> pystr option \<Rightarrow> exc + pynum list option" where
  "parse_vector B raw_opt =
     (case raw_opt of
        None \<Rightarrow> Inr None
      | Some raw0 \<Rightarrow>
          if raw0 = [] then Inr None
          else (let raw = strip raw0
                in if raw = [] then Inr None
                   else (case try_values B raw of
                           Inl exc \<Rightarrow>
                             if is_ValueError exc then Inl invalid_vector_format else Inl exc
                         | Inr values \<Rightarrow>
                             if truthy values
                             then (case iterate values of
                                     Inl e \<Rightarrow> Inl e
                                   | Inr vals \<Rightarrow>
                                       (case traverse (py_float B) vals of
                                          Inl e \<Rightarrow> Inl e
                                        | Inr fs \<Rightarrow> Inr (Some fs)))
                             else Inr None)))"

section \<open>\<open>CPUQwenEmotion.inference\<close>\<close>

text \<open>
  The tokenizer and the model of an instance are external: \<open>generate\<close> stands for the chat
  template, the tokenisation and \<open>model.generate\<close>, and gives the ids of the new tokens;
  \<open>decode\<close> is \<open>tokenizer.decode(ids, skip_special_tokens=True)\<close>. Either may raise.
\<close>

record llm =
  generate :: "pystr \<Rightarrow> exc + nat list"
  decode :: "nat list \<Rightarrow> exc + pystr"

text \<open>
  \<open>len(output_ids) - output_ids[::-1].index(151668)\<close>, and \<open>0\<close> when the marker token does
  not occur: the position after the last marker.
\<close>

definition answer_index :: "nat list \<Rightarrow> nat" where
  "answer_index output_ids =
     (if 151668 \<in> set output_ids
      then length output_ids - length (takeWhile (\<lambda>t. t \<noteq> 151668) (rev output_ids))
      else 0)"

text \<open>
  The pattern \<open>([^\s":.,]+?)"?\s*:\s*([\d.]+)\<close>. A label character is any code point but
  white space and the four characters \<open>" : . ,\<close>; a number character is a decimal digit or
  a dot.

  \<open>match_here\<close> is the match of the pattern at the start of a string, if there is one: the two
  groups and the text after the match. The pattern leaves the matcher no choice. The first
  group is lazy, yet what follows it must start with a quote, white space or a colon, none of
  which is a label character, so the group is the whole run of label characters. The optional
  quote and the two runs of white space are followed by a colon and by a number character,
  which they cannot match themselves, so taking less of them never helps. The second group
  is greedy and last.
\<close>

definition label_char :: "nat \<Rightarrow> bool" where
  "label_char c = (\<not> (isspace c \<or> c = 34 \<or> c = 58 \<or> c = 46 \<or> c = 44))"

definition number_char :: "builtins \<Rightarrow> nat \<Rightarrow> bool" where
  "number_char B c = (is_decimal B c \<or> c = 46)"

definition match_here :: "builtins \<Rightarrow> pystr \<Rightarrow> (pystr \<times> pystr \<times> pystr) option" where
  "match_here B s =
     (let g1 = takeWhile label_char s;
          s1 = dropWhile label_char s;
          s2 = (case s1 of [] \<Rightarrow> s1 | c # r \<Rightarrow> if c = 34 then r else s1);
          s3 = dropWhile isspace s2
      in if g1 = [] then None
         else (case s3 of
                 [] \<Rightarrow> None
               | c # s4 \<Rightarrow>
                   if c = 58
                   then (let s5 = dropWhile isspace s4;
                             g2 = takeWhile (number_char B) s5
                         in if g2 = [] then None
                            else Some (g1, g2, dropWhile (number_char B) s5))
                   else None))"

text \<open>
  \<open>re.finditer\<close>: the matches from left to right, without overlap. Where the pattern does
  not match, the scan moves one code point on; after a match it goes on behind the match.
\<close>

function finditer :: "builtins \<Rightarrow> pystr \<Rightarrow> (pystr \<times> pystr) list" where
  "finditer B [] = []"
| "finditer B (c # cs) =
     (case match_here B (c # cs) of
        None \<Rightarrow> finditer B cs
      | Some (g1, g2, rest) \<Rightarrow> (g1, g2) # finditer B rest)"
  by pat_completeness auto
termination
proof (relation "measure (\<lambda>(B, s). length s)")
  show "wf (measure (\<lambda>(B, s). length s))" by simp
next
  fix B :: builtins and c :: nat and cs :: pystr
  show "((B, cs), (B, c # cs)) \<in> measure (\<lambda>(B, s). length s)" by simp
next
  fix B :: builtins and c :: nat and cs :: pystr and x2 :: "pystr \<times> pystr \<times> pystr"
    and g1 :: pystr and y :: "pystr \<times> pystr" and g2 :: pystr and rest :: pystr
  assume "match_here B (c # cs) = Some x2" and "(g1, y) = x2" and "(g2, rest) = y"
  then have m: "match_here B (c # cs) = Some (g1, g2, rest)"
    by auto
  define s where "s = c # cs"
  define s1 where "s1 = dropWhile label_char s"
  define s2 where "s2 = (case s1 of [] \<Rightarrow> s1 | d # r \<Rightarrow> if d = 34 then r else s1)"
  define s3 where "s3 = dropWhile isspace s2"
  have e: "match_here B s =
      (if takeWhile label_char s = [] then None
       else (case s3 of
               [] \<Rightarrow> None
             | d # s4 \<Rightarrow>
                 if d = 58
                 then (if takeWhile (number_char B) (dropWhile isspace s4) = [] then None
                       else Some (takeWhile label_char s,
                                  takeWhile (number_char B) (dropWhile isspace s4),
                                  dropWhile (number_char B) (dropWhile isspace s4)))
                 else None))"
    unfolding s3_def s2_def s1_def match_here_def Let_def by (rule refl)
  from m have m': "match_here B s = Some (g1, g2, rest)"
    by (simp add: s_def)
  from m' e have g1: "takeWhile label_char s \<noteq> []"
    by (auto split: if_splits)
  from m' e g1 obtain s4 where s3: "s3 = 58 # s4"
    and rest: "rest = dropWhile (number_char B) (dropWhile isspace s4)"
    by (cases s3) (auto split: if_splits)
  have "length (takeWhile label_char s) + length s1 = length s"
    by (simp add: s1_def flip: length_append)
  with g1 have l1: "length s1 < length s"
    by (cases "takeWhile label_char s") auto
  have l2: "length s2 \<le> length s1"
    by (cases s1) (auto simp: s2_def)
  have l3: "length s3 \<le> length s2"
    unfolding s3_def by (rule length_dropWhile_le)
  have "length rest \<le> length s4"
    unfolding rest
    by (rule order_trans [OF length_dropWhile_le length_dropWhile_le])
  moreover from s3 have "length s4 < length s3"
    by simp
  ultimately have "length rest < length s"
    using l1 l2 l3 by linarith
  then show "((B, rest), (B, c # cs)) \<in> measure (\<lambda>(B, s). length s)"
    by (simp add: s_def)
qed

text \<open>
  The comprehension of the fallback: each match gives the key \<open>match.group(1)\<close> and the
  value \<open>float(match.group(2))\<close>, and \<open>float\<close> raises \<open>ValueError\<close> on a text it cannot read.
\<close>

definition fallback_item :: "builtins \<Rightarrow> pystr \<times> pystr \<Rightarrow> exc + (pystr \<times> pyval)" where
  "fallback_item B m =
     (case py_float B (PyStr (snd m)) of Inl e \<Rightarrow> Inl e | Inr f \<Rightarrow> Inr (fst m, PyFloat f))"

definition fallback :: "builtins \<Rightarrow> pystr \<Rightarrow> exc + pyval" where
  "fallback B content =
     (case traverse (fallback_item B) (finditer B content) of
        Inl e \<Rightarrow> Inl e
      | Inr pairs \<Rightarrow> Inr (PyDict (dict_of pairs)))"

text \<open>\<open>json.loads(content)\<close>, and the fallback on \<open>JSONDecodeError\<close>.\<close>

definition parse_content :: "builtins \<Rightarrow> pystr \<Rightarrow> exc + pyval" where
  "parse_content B content =
     (case json_loads B content of Some parsed \<Rightarrow> Inr parsed | None \<Rightarrow> fallback B content)"

definition melancholic_words :: "pystr list" where
  "melancholic_words =
     [k_melancholic, ascii ''melancholy'', ascii ''melancholic'', ascii ''depression'',
      ascii ''depressed'', ascii ''gloomy'']"

text \<open>\<open>any(word in lower for word in self.melancholic_words)\<close> with \<open>lower = text_input.lower()\<close>.\<close>

definition has_melancholic_word :: "builtins \<Rightarrow> pystr \<Rightarrow> bool" where
  "has_melancholic_word B text_input =
     list_ex (\<lambda>word. contains word (str_lower B text_input)) melancholic_words"

text \<open>
  The tuple assignment that swaps the two scores. Its right-hand side is evaluated first,
  low-spirits key before sadness key, then the two items are stored, sadness key first.
\<close>

definition swap_sad_melancholic :: "pyval \<Rightarrow> exc + pyval" where
  "swap_sad_melancholic parsed =
     (case dict_get parsed k_melancholic (PyFloat (Fin 0)) of
        Inl e \<Rightarrow> Inl e
      | Inr new_sad \<Rightarrow>
          (case dict_get parsed k_sad (PyFloat (Fin 0)) of
             Inl e \<Rightarrow> Inl e
           | Inr new_melancholic \<Rightarrow>
               (case dict_set parsed k_sad new_sad of
                  Inl e \<Rightarrow> Inl e
                | Inr parsed1 \<Rightarrow> dict_set parsed1 k_melancholic new_melancholic)))"

text \<open>The mapping the tuple assignment leaves, for a dict \<open>kvs\<close>.\<close>

definition swapped :: "(pystr \<times> pyval) list \<Rightarrow> (pystr \<times> pyval) list" where
  "swapped kvs =
     AList.update k_melancholic
       (case map_of kvs k_sad of None \<Rightarrow> PyFloat (Fin 0) | Some v \<Rightarrow> v)
       (AList.update k_sad
          (case map_of kvs k_melancholic of None \<Rightarrow> PyFloat (Fin 0) | Some v \<Rightarrow> v) kvs)"

definition disambiguate :: "builtins \<Rightarrow> pystr \<Rightarrow> pyval \<Rightarrow> exc + pyval" where
  "disambiguate B text_input parsed =
     (if has_melancholic_word B text_input then swap_sad_melancholic parsed else Inr parsed)"

definition inference :: "builtins \<Rightarrow> llm \<Rightarrow> pystr \<Rightarrow> exc + emotion_dict" where
  "inference B M text_input =
     (case generate M text_input of
        Inl e \<Rightarrow> Inl e
      | Inr output_ids \<Rightarrow>
          (case decode M (drop (answer_index output_ids) output_ids) of
             Inl e \<Rightarrow> Inl e
           | Inr content \<Rightarrow>
               (case parse_content B content of
                  Inl e \<Rightarrow> Inl e
                | Inr parsed \<Rightarrow>
                    (case disambiguate B text_input parsed of
                       Inl e \<Rightarrow> Inl e
                     | Inr parsed' \<Rightarrow> convert parsed'))))"

section \<open>\<open>_wrap_qwen_with_fallback\<close> and \<open>SafeQwenEmotion\<close>\<close>

text \<open>
  The class bound to \<open>infer_v2.QwenEmotion\<close> is either a class that was there before the
  wrapping (the one of \<open>infer_v2\<close>, or \<open>CPUQwenEmotion\<close>), which does not carry the attribute
  \<open>_is_safe_wrapper\<close>, or a \<open>SafeQwenEmotion\<close>, which closes over the class it wraps.
  \<open>is_safe_wrapper\<close> is \<open>getattr(cls, "_is_safe_wrapper", False)\<close>. The module attribute is
  an option: nothing when \<open>getattr(infer_v2, "QwenEmotion", None)\<close> is \<open>None\<close>.
\<close>

datatype 'c qwen_class = Plain 'c | SafeQwenEmotion "'c qwen_class"

fun is_safe_wrapper :: "'c qwen_class \<Rightarrow> bool" where
  "is_safe_wrapper (Plain c) = False"
| "is_safe_wrapper (SafeQwenEmotion original_cls) = True"

definition wrap_qwen_with_fallback :: "'c qwen_class option \<Rightarrow> 'c qwen_class option" where
  "wrap_qwen_with_fallback QwenEmotion =
     (case QwenEmotion of
        None \<Rightarrow> None
      | Some original_cls \<Rightarrow>
          if is_safe_wrapper original_cls then Some original_cls
          else Some (SafeQwenEmotion original_cls))"

text \<open>The number of \<open>SafeQwenEmotion\<close> layers of a class.\<close>

fun fallback_layers :: "'c qwen_class \<Rightarrow> nat" where
  "fallback_layers (Plain c) = 0"
| "fallback_layers (SafeQwenEmotion original_cls) = Suc (fallback_layers original_cls)"

text \<open>
  An instance: of a plain class, with a state of its own, or of \<open>SafeQwenEmotion\<close>, with the
  fields \<open>_inner\<close> and \<open>_inner_exc\<close>. The plain classes are external: \<open>plain_init\<close> is their
  constructor, which may raise, and \<open>plain_inference\<close> their method \<open>inference\<close>, which may
  raise and may change the instance.
\<close>

datatype 'i qwen = PlainObj 'i | SafeObj "'i qwen option" "exc option"

record ('c, 'i) plain_classes =
  plain_init :: "'c \<Rightarrow> pystr \<Rightarrow> exc + 'i"
  plain_inference :: "'i \<Rightarrow> pystr \<Rightarrow> (exc + emotion_dict) \<times> 'i"

text \<open>The two messages \<open>SafeQwenEmotion\<close> prints, each with the exception it reports.\<close>

datatype printed = Unavailable exc | InferenceFailed exc

definition neutral :: emotion_dict where
  "neutral = [(ascii ''calm'', Fin 1)]"

text \<open>\<open>cls(model_dir)\<close>: the instance or the exception, and what was printed.\<close>

fun init_qwen ::
  "('c, 'i) plain_classes \<Rightarrow> 'c qwen_class \<Rightarrow> pystr \<Rightarrow> (exc + 'i qwen) \<times> printed list" where
  "init_qwen P (Plain c) model_dir =
     (case plain_init P c model_dir of
        Inl exc \<Rightarrow> (Inl exc, [])
      | Inr i \<Rightarrow> (Inr (PlainObj i), []))"
| "init_qwen P (SafeQwenEmotion original_cls) model_dir =
     (case init_qwen P original_cls model_dir of
        (Inr inner, out) \<Rightarrow> (Inr (SafeObj (Some inner) None), out)
      | (Inl exc, out) \<Rightarrow>
          if is_Exception exc
          then (Inr (SafeObj None (Some exc)), out @ [Unavailable exc])
          else (Inl exc, out))"

text \<open>\<open>obj.inference(text_input)\<close>: the result or the exception, the instance after the call, and what was printed.\<close>

fun qwen_inference ::
  "('c, 'i) plain_classes \<Rightarrow> 'i qwen \<Rightarrow> pystr \<Rightarrow> (exc + emotion_dict) \<times> 'i qwen \<times> printed list"
  where
  "qwen_inference P (PlainObj i) text_input =
     (case plain_inference P i text_input of (r, i') \<Rightarrow> (r, PlainObj i', []))"
| "qwen_inference P (SafeObj None x) text_input = (Inr neutral, SafeObj None x, [])"
| "qwen_inference P (SafeObj (Some inner) x) text_input =
     (case qwen_inference P inner text_input of
        (Inr d, inner', out) \<Rightarrow> (Inr d, SafeObj (Some inner') x, out)
      | (Inl exc, inner', out) \<Rightarrow>
          if is_Exception exc
          then (Inr neutral, SafeObj (Some inner') x, out @ [InferenceFailed exc])
          else (Inl exc, SafeObj (Some inner') x, out))"

text \<open>Calls of \<open>inference\<close> on one instance, one after the other: the outcome of each call.\<close>

fun inference_calls ::
  "('c, 'i) plain_classes \<Rightarrow> 'i qwen \<Rightarrow> pystr list \<Rightarrow> (exc + emotion_dict) list" where
  "inference_calls P obj [] = []"
| "inference_calls P obj (t # ts) =
     (case qwen_inference P obj t of (r, obj', out) \<Rightarrow> r # inference_calls P obj' ts)"

text \<open>
  \<open>CPUQwenEmotion\<close> as a plain class: its constructor loads the tokenizer and the model
  (\<open>from_pretrained\<close>, external), and its \<open>inference\<close> leaves the instance as it is.
\<close>

definition CPUQwenEmotion ::
  "builtins \<Rightarrow> (pystr \<Rightarrow> exc + llm) \<Rightarrow> (unit, llm) plain_classes" where
  "CPUQwenEmotion B from_pretrained =
     \<lparr>plain_init = (\<lambda>c model_dir. from_pretrained model_dir),
      plain_inference = (\<lambda>M text_input. (inference B M text_input, M))\<rparr>"

section \<open>\<open>Predictor.predict\<close>\<close>

text \<open>
  The request, and the keyword arguments of \<open>self.tts.infer\<close>. The eight sampling parameters
  are passed on as they are and stand together in one record. The synthesis engine
  \<open>tts.infer\<close> and \<open>tempfile.mkdtemp\<close> are external: the first is a function of the keyword
  arguments, the second the directory it made, and either may raise.
\<close>

record sampling =
  max_text_tokens_per_segment :: int
  top_p :: pynum
  top_k :: int
  temperature :: pynum
  length_penalty :: pynum
  num_beams :: int
  repetition_penalty :: pynum
  max_mel_tokens :: int

record request =
  input_text :: pystr
  speaker_audio :: pystr
  emotion_audio :: "pystr option"
  emotion_scale :: pynum
  emotion_vector :: "pystr option"
  emotion_text :: "pystr option"
  randomize_emotion :: bool
  interval_silence_ms :: int
  sampling :: sampling

record infer_kwargs =
  spk_audio_prompt :: pystr
  infer_text :: pystr
  output_path :: pystr
  emo_audio_prompt :: "pystr option"
  emo_alpha :: pynum
  emo_vector :: "pynum list option"
  use_emo_text :: bool
  emo_text :: "pystr option"
  use_random :: bool
  interval_silence :: int
  sampling_kwargs :: sampling

definition build_kwargs :: "request \<Rightarrow> pynum list option \<Rightarrow> pystr \<Rightarrow> infer_kwargs" where
  "build_kwargs r emotion_values tmp_dir =
     \<lparr>spk_audio_prompt = speaker_audio r,
      infer_text = input_text r,
      output_path = tmp_dir @ ascii ''/output.wav'',
      emo_audio_prompt = emotion_audio r,
      emo_alpha = emotion_scale r,
      emo_vector = emotion_values,
      use_emo_text = (case emotion_text r of None \<Rightarrow> False | Some t \<Rightarrow> strip t \<noteq> []),
      emo_text = emotion_text r,
      use_random = randomize_emotion r,
      interval_silence = interval_silence_ms r,
      sampling_kwargs = sampling r\<rparr>"

text \<open>
  \<open>predict\<close> parses the vector, makes the directory and calls \<open>self.tts.infer\<close>, its only
  call of a collaborator; \<open>directive\<close> is the keyword arguments of that call, or the exception
  raised before it.
\<close>

definition directive :: "builtins \<Rightarrow> (exc + pystr) \<Rightarrow> request \<Rightarrow> exc + infer_kwargs" where
  "directive B mkdtemp r =
     (case parse_vector B (emotion_vector r) of
        Inl e \<Rightarrow> Inl e
      | Inr emotion_values \<Rightarrow>
          (case mkdtemp of
             Inl e \<Rightarrow> Inl e
           | Inr tmp_dir \<Rightarrow> Inr (build_kwargs r emotion_values tmp_dir)))"

definition predict ::
  "builtins \<Rightarrow> (exc + pystr) \<Rightarrow> (infer_kwargs \<Rightarrow> exc + pystr) \<Rightarrow> request \<Rightarrow> exc + pystr" where
  "predict B mkdtemp tts_infer r =
     (case directive B mkdtemp r of
        Inl e \<Rightarrow> Inl e
      | Inr kwargs \<Rightarrow> tts_infer kwargs)"

section \<open>A sample of the built-ins\<close>

text \<open>
  One choice of the built-ins, for running the model on the examples below. It gives what
  CPython gives on the texts the examples use, and no more than that is claimed of it:
  \<^item> \<open>decimal_float\<close> reads ASCII digits with at most one dot (\<open>1\<close>, \<open>1.\<close>, \<open>.5\<close>, \<open>0.25\<close>) and
    rejects a text of digits and dots that has no digit or two dots, as \<open>float\<close> does; it
    also rejects signs, exponents, blanks and \<open>inf\<close>, which \<open>float\<close> reads;
  \<^item> \<open>json_examples\<close> decodes the two JSON texts of the examples and rejects every other
    text; the examples use it only on those two and on texts that are not JSON;
  \<^item> \<open>float_of_int_sample\<close> raises \<open>OverflowError\<close> beyond the range of a double;
  \<^item> the decimal digits are the ASCII ones, and \<open>lower\<close> maps \<open>A\<close> to \<open>Z\<close> only.
\<close>

definition ascii_digit :: "nat \<Rightarrow> bool" where
  "ascii_digit c = (48 \<le> c \<and> c \<le> 57)"

definition digits_value :: "pystr \<Rightarrow> nat" where
  "digits_value ds = foldl (\<lambda>n c. 10 * n + (c - 48)) 0 ds"

definition decimal_float :: "pystr \<Rightarrow> pynum option" where
  "decimal_float s =
     (let ip = takeWhile ascii_digit s
      in case dropWhile ascii_digit s of
           [] \<Rightarrow> if ip = [] then None else Some (Fin (real (digits_value ip)))
         | c # fp \<Rightarrow>
             if c = 46 \<and> list_all ascii_digit fp \<and> \<not> (ip = [] \<and> fp = [])
             then Some (Fin (real (digits_value ip) + real (digits_value fp) / 10 ^ length fp))
             else None)"

definition json_examples :: "pystr \<Rightarrow> pyval option" where
  "json_examples s =
     (if s = ascii ''[null]'' then Some (PyList [PyNone])
      else if s = ascii ''[0.1,0.2,0,0,0,0,0,0]''
      then Some (PyList [PyFloat (Fin 0.1), PyFloat (Fin 0.2), PyInt 0, PyInt 0, PyInt 0,
                         PyInt 0, PyInt 0, PyInt 0])
      else None)"

definition float_of_int_sample :: "int \<Rightarrow> pynum option" where
  "float_of_int_sample i =
     (if \<bar>i\<bar> < 2 ^ 1024 - 2 ^ 970 then Some (Fin (of_int i)) else None)"

definition ascii_lower :: "pystr \<Rightarrow> pystr" where
  "ascii_lower s = map (\<lambda>c. if 65 \<le> c \<and> c \<le> 90 then c + 32 else c) s"

definition sample_builtins :: builtins where
  "sample_builtins =
     \<lparr>json_loads = json_examples,
      float_of_str = decimal_float,
      float_of_int = float_of_int_sample,
      is_decimal = ascii_digit,
      str_lower = ascii_lower\<rparr>"

text \<open>
  A model for the examples: it fails to generate for the text \<open>boom\<close> and otherwise answers,
  after the marker token, with a text that is not JSON and gives the sadness key \<open>0.9\<close> and
  the low-spirits key \<open>0.2\<close>. One loader finds no model, the other loads this one.
\<close>

definition sample_content :: pystr where
  "sample_content = k_sad @ ascii '': 0.9, '' @ k_melancholic @ ascii '': 0.2''"

definition sample_generate :: "pystr \<Rightarrow> exc + nat list" where
  "sample_generate text_input =
     (if text_input = ascii ''boom'' then Inl (OtherException ''generation failed'')
      else Inr [3, 151668, 7, 8])"

definition sample_decode :: "nat list \<Rightarrow> exc + pystr" where
  "sample_decode ids = (if ids = [7, 8] then Inr sample_content else Inr [])"

definition sample_llm :: llm where
  "sample_llm = \<lparr>generate = sample_generate, decode = sample_decode\<rparr>"

definition missing_model :: "pystr \<Rightarrow> exc + llm" where
  "missing_model model_dir = Inl (OtherException ''model not found'')"

definition loaded_model :: "pystr \<Rightarrow> exc + llm" where
  "loaded_model model_dir = Inr sample_llm"

text \<open>
  A request with the defaults of the signature, the explicit vector of the spec's scenario A
  and an emotion text.
\<close>

definition sample_request :: request where
  "sample_request =
     \<lparr>input_text = ascii ''Hello'',
      speaker_audio = ascii ''speaker.wav'',
      emotion_audio = None,
      emotion_scale = Fin 1,
      emotion_vector = Some (ascii ''[0.1,0.2,0,0,0,0,0,0]''),
      emotion_text = Some (ascii ''happy''),
      randomize_emotion = False,
      interval_silence_ms = 200,
      sampling =
        \<lparr>max_text_tokens_per_segment = 120, top_p = Fin 0.8, top_k = 30,
         temperature = Fin 0.8, length_penalty = Fin 0, num_beams = 3,
         repetition_penalty = Fin 10, max_mel_tokens = 1500\<rparr>\<rparr>"

text \<open>A synthesis engine for the examples: it returns the path it was told to write.\<close>

definition sample_tts :: "infer_kwargs \<Rightarrow> exc + pystr" where
  "sample_tts kwargs = Inr (output_path kwargs)"

section \<open>Properties of \<open>convert\<close>\<close>

lemma clamp_range: "in_range (clamp v)"
  by (cases v)
    (simp_all add: in_range_def clamp_def py_max_def py_min_def max_score_def min_score_def)

lemma clamped_range: "in_range (clamped kvs k)"
  by (cases "score kvs k") (simp_all add: clamped_def clamp_range, simp add: in_range_def)

lemma clamped_missing: "map_of kvs k = None \<Longrightarrow> clamped kvs k = Fin 0"
  by (simp add: clamped_def score_def clamp_def py_max_def py_min_def max_score_def
      min_score_def)

lemma traverse_all_Inr:
  "(\<And>x. x \<in> set xs \<Longrightarrow> f x = Inr (g x)) \<Longrightarrow> traverse f xs = Inr (map g xs)"
  by (induction xs) simp_all

lemma ascii_eq_iff [simp]: "ascii s = ascii t \<longleftrightarrow> s = t"
  by (simp add: ascii_def inj_on_def)

lemmas cn_keys =
  k_happy_def k_angry_def k_sad_def k_afraid_def k_disgusted_def k_melancholic_def
  k_surprised_def k_calm_def

lemma dict_of_distinct:
  assumes "distinct (map fst ps)"
  shows "dict_of ps = ps"
proof -
  have "foldl (\<lambda>d (k, v). AList.update k v d) acc ps = acc @ ps"
    if "distinct (map fst (acc @ ps))" for acc
    using that
  proof (induction ps arbitrary: acc)
    case Nil
    then show ?case by simp
  next
    case (Cons p ps)
    obtain k v where p: "p = (k, v)" by (cases p)
    from Cons.prems have "k \<notin> fst ` set acc" by (auto simp: p)
    then have "AList.update k v acc = acc @ [(k, v)]"
      by (induction acc) auto
    with Cons.IH [of "acc @ [p]"] Cons.prems show ?case by (simp add: p)
  qed
  from this [of "[]"] assms show ?thesis by (simp add: dict_of_def)
qed

lemma convert_item_raw:
  assumes "score kvs k \<noteq> None" and "map_of cn_key_to_en k = Some en"
  shows "convert_item (PyDict kvs) k = Inr (en, clamped kvs k)"
  using assms
  by (auto simp: convert_item_def clamp_score_def clamped_def score_def split: option.splits)

lemma traverse_raw:
  assumes "raw_classification kvs"
  shows "traverse (convert_item (PyDict kvs)) desired_vector_order = Inr (clamped_scores kvs)"
proof -
  from assms have s:
    "score kvs k_happy \<noteq> None" "score kvs k_angry \<noteq> None" "score kvs k_sad \<noteq> None"
    "score kvs k_afraid \<noteq> None" "score kvs k_disgusted \<noteq> None"
    "score kvs k_melancholic \<noteq> None" "score kvs k_surprised \<noteq> None"
    "score kvs k_calm \<noteq> None"
    by (simp_all add: raw_classification_def desired_vector_order_def)
  have m:
    "map_of cn_key_to_en k_happy = Some (ascii ''happy'')"
    "map_of cn_key_to_en k_angry = Some (ascii ''angry'')"
    "map_of cn_key_to_en k_sad = Some (ascii ''sad'')"
    "map_of cn_key_to_en k_afraid = Some (ascii ''afraid'')"
    "map_of cn_key_to_en k_disgusted = Some (ascii ''disgusted'')"
    "map_of cn_key_to_en k_melancholic = Some (ascii ''melancholic'')"
    "map_of cn_key_to_en k_surprised = Some (ascii ''surprised'')"
    "map_of cn_key_to_en k_calm = Some (ascii ''calm'')"
    by (simp_all add: cn_key_to_en_def cn_keys)
  show ?thesis
    by (simp add: desired_vector_order_def clamped_scores_def convert_item_raw s m)
qed

lemma convert_raw:
  assumes "raw_classification kvs"
  shows "convert (PyDict kvs) = Inr (default_calm (clamped_scores kvs))"
proof -
  have "distinct (map fst (clamped_scores kvs))"
    by (simp add: clamped_scores_def)
  then have "dict_of (clamped_scores kvs) = clamped_scores kvs"
    by (rule dict_of_distinct)
  then show ?thesis
    by (simp add: convert_def traverse_raw [OF assms])
qed

lemma default_calm_keys:
  "map fst (default_calm (clamped_scores kvs)) = map fst (clamped_scores kvs)"
  by (simp add: default_calm_def clamped_scores_def)

lemma default_calm_range: "list_all in_range (map snd (default_calm (clamped_scores kvs)))"
proof -
  have "in_range (Fin 1)" by (simp add: in_range_def)
  then show ?thesis
    by (simp add: default_calm_def clamped_scores_def clamped_range)
qed

lemma default_calm_scores:
  "default_calm (clamped_scores kvs) =
     (if all_nonpositive kvs
      then (clamped_scores kvs)[7 := (ascii ''calm'', Fin 1)]
      else clamped_scores kvs)"
  by (simp add: default_calm_def clamped_scores_def all_nonpositive_def
      desired_vector_order_def)

text \<open>
  Outside the raw classifications \<open>convert\<close> raises: \<open>AttributeError\<close> for an object that is
  not a dict, \<open>TypeError\<close> for a dict that binds a canonical label to an object that is not a
  number.
\<close>

lemma convert_not_a_dict: "convert (PyList xs) = Inl AttributeError"
  by (simp add: convert_def desired_vector_order_def convert_item_def cn_key_to_en_def cn_keys)

lemma convert_not_a_number:
  "convert (PyDict [(k_happy, PyStr (ascii ''high''))]) = Inl TypeError"
  by (simp add: convert_def desired_vector_order_def convert_item_def cn_key_to_en_def cn_keys
      clamp_score_def)

text \<open>
  Claim C9. A raw classification always converts: the result binds exactly the eight
  canonical labels, in canonical order, every value lies in \<open>[0.0, 1.2]\<close> (NaN and the
  infinities included), and a label missing from the raw mapping is read as \<open>0.0\<close>, so
  that it ends at \<open>0.0\<close> (at \<open>1.0\<close> for \<open>calm\<close> when no label is positive).
\<close>

theorem convert_labels_and_range:
  assumes "raw_classification kvs"
  shows "\<exists>d. convert (PyDict kvs) = Inr d
    \<and> map fst d = map ascii [''happy'', ''angry'', ''sad'', ''afraid'', ''disgusted'',
         ''melancholic'', ''surprised'', ''calm'']
    \<and> list_all in_range (map snd d)
    \<and> (\<forall>(cn, en) \<in> set cn_key_to_en. map_of kvs cn = None \<longrightarrow>
         score kvs cn = Some (Fin 0)
         \<and> map_of d en =
             Some (if en = ascii ''calm'' \<and> all_nonpositive kvs then Fin 1 else Fin 0))"
proof -
  let ?d = "default_calm (clamped_scores kvs)"
  have c: "convert (PyDict kvs) = Inr ?d"
    by (rule convert_raw [OF assms])
  have k: "map fst ?d = map ascii [''happy'', ''angry'', ''sad'', ''afraid'', ''disgusted'',
         ''melancholic'', ''surprised'', ''calm'']"
    by (simp add: default_calm_keys) (simp add: clamped_scores_def)
  have m: "\<forall>(cn, en) \<in> set cn_key_to_en. map_of kvs cn = None \<longrightarrow>
         score kvs cn = Some (Fin 0)
         \<and> map_of ?d en =
             Some (if en = ascii ''calm'' \<and> all_nonpositive kvs then Fin 1 else Fin 0)"
    by (simp add: default_calm_scores cn_key_to_en_def score_def)
      (simp add: clamped_scores_def clamped_missing)
  from c k default_calm_range m show ?thesis by blast
qed

theorem convert_labels_and_range_witness:
  "raw_classification [(k_happy, PyFloat (Fin 2)), (k_sad, PyInt (- 3)), (k_calm, PyFloat NaN)]
   \<and> convert (PyDict [(k_happy, PyFloat (Fin 2)), (k_sad, PyInt (- 3)), (k_calm, PyFloat NaN)])
       = Inr [(ascii ''happy'', Fin 1.2), (ascii ''angry'', Fin 0), (ascii ''sad'', Fin 0),
              (ascii ''afraid'', Fin 0), (ascii ''disgusted'', Fin 0),
              (ascii ''melancholic'', Fin 0), (ascii ''surprised'', Fin 0),
              (ascii ''calm'', Fin 1.2)]
   \<and> list_all in_range [Fin 1.2, Fin 0, Fin 0, Fin 0, Fin 0, Fin 0, Fin 0, Fin 1.2]"
proof -
  let ?K = "[(k_happy, PyFloat (Fin 2)), (k_sad, PyInt (- 3)), (k_calm, PyFloat NaN)]"
  have h: "raw_classification ?K"
    by (simp add: raw_classification_def desired_vector_order_def score_def cn_keys)
  have c: "convert (PyDict ?K)
       = Inr [(ascii ''happy'', Fin 1.2), (ascii ''angry'', Fin 0), (ascii ''sad'', Fin 0),
              (ascii ''afraid'', Fin 0), (ascii ''disgusted'', Fin 0),
              (ascii ''melancholic'', Fin 0), (ascii ''surprised'', Fin 0),
              (ascii ''calm'', Fin 1.2)]"
    by (simp add: convert_def desired_vector_order_def convert_item_def cn_key_to_en_def
        cn_keys clamp_score_def clamp_def py_max_def py_min_def max_score_def min_score_def
        dict_of_def default_calm_def)
  from convert_labels_and_range [OF h] c h show ?thesis by auto
qed

text \<open>
  Claim C2, as stated, fails: \<open>convert\<close> tests every value of the dict, the one of \<open>calm\<close>
  included. For the mapping that gives only \<open>calm\<close> a positive score, \<open>0.5\<close>, every other
  label clamps to \<open>0.0\<close> and \<open>calm\<close> stays at \<open>0.5\<close>: it is not forced to \<open>1.0\<close>.
\<close>

theorem calm_not_forced_counterexample:
  "convert (PyDict [(k_calm, PyFloat (Fin 0.5))])
     = Inr [(ascii ''happy'', Fin 0), (ascii ''angry'', Fin 0), (ascii ''sad'', Fin 0),
            (ascii ''afraid'', Fin 0), (ascii ''disgusted'', Fin 0),
            (ascii ''melancholic'', Fin 0), (ascii ''surprised'', Fin 0),
            (ascii ''calm'', Fin 0.5)]"
  by (simp add: convert_def desired_vector_order_def convert_item_def cn_key_to_en_def
      cn_keys clamp_score_def clamp_def py_max_def py_min_def max_score_def min_score_def
      dict_of_def default_calm_def)

text \<open>
  Claim C2, amended. \<open>calm\<close> is forced to \<open>1.0\<close> exactly when every one of the eight labels,
  \<open>calm\<close> included, has a clamped score \<open>\<le> 0\<close>; otherwise \<open>calm\<close> keeps its own clamped score.
  The other seven labels always keep their clamped scores.
\<close>

theorem calm_forced_when_all_nonpositive:
  assumes "raw_classification kvs"
  shows "\<exists>d. convert (PyDict kvs) = Inr d
    \<and> map_of d (ascii ''calm'') =
        Some (if all_nonpositive kvs then Fin 1 else clamped kvs k_calm)
    \<and> (\<forall>(cn, en) \<in> set cn_key_to_en. en \<noteq> ascii ''calm'' \<longrightarrow>
         map_of d en = Some (clamped kvs cn))"
proof -
  let ?d = "default_calm (clamped_scores kvs)"
  have c: "convert (PyDict kvs) = Inr ?d"
    by (rule convert_raw [OF assms])
  have a: "map_of ?d (ascii ''calm'') =
      Some (if all_nonpositive kvs then Fin 1 else clamped kvs k_calm)"
    by (simp add: default_calm_scores) (simp add: clamped_scores_def)
  have m: "\<forall>(cn, en) \<in> set cn_key_to_en. en \<noteq> ascii ''calm'' \<longrightarrow>
      map_of ?d en = Some (clamped kvs cn)"
    by (simp add: default_calm_scores cn_key_to_en_def) (simp add: clamped_scores_def)
  from c a m show ?thesis by blast
qed

theorem calm_forced_when_all_nonpositive_witness:
  "raw_classification [(k_sad, PyFloat (Fin (- 1)))]
   \<and> all_nonpositive [(k_sad, PyFloat (Fin (- 1)))]
   \<and> convert (PyDict [(k_sad, PyFloat (Fin (- 1)))])
       = Inr [(ascii ''happy'', Fin 0), (ascii ''angry'', Fin 0), (ascii ''sad'', Fin 0),
              (ascii ''afraid'', Fin 0), (ascii ''disgusted'', Fin 0),
              (ascii ''melancholic'', Fin 0), (ascii ''surprised'', Fin 0),
              (ascii ''calm'', Fin 1)]
   \<and> map_of [(ascii ''happy'', Fin 0), (ascii ''angry'', Fin 0), (ascii ''sad'', Fin 0),
              (ascii ''afraid'', Fin 0), (ascii ''disgusted'', Fin 0),
              (ascii ''melancholic'', Fin 0), (ascii ''surprised'', Fin 0),
              (ascii ''calm'', Fin 1)] (ascii ''calm'') = Some (Fin 1)"
proof -
  let ?K = "[(k_sad, PyFloat (Fin (- 1)))]"
  have h: "raw_classification ?K"
    by (simp add: raw_classification_def desired_vector_order_def score_def cn_keys)
  have n: "all_nonpositive ?K"
    by (simp add: all_nonpositive_def desired_vector_order_def clamped_def score_def cn_keys
        clamp_def py_max_def py_min_def max_score_def min_score_def)
  have c: "convert (PyDict ?K)
       = Inr [(ascii ''happy'', Fin 0), (ascii ''angry'', Fin 0), (ascii ''sad'', Fin 0),
              (ascii ''afraid'', Fin 0), (ascii ''disgusted'', Fin 0),
              (ascii ''melancholic'', Fin 0), (ascii ''surprised'', Fin 0),
              (ascii ''calm'', Fin 1)]"
    by (simp add: convert_def desired_vector_order_def convert_item_def cn_key_to_en_def
        cn_keys clamp_score_def clamp_def py_max_def py_min_def max_score_def min_score_def
        dict_of_def default_calm_def)
  from calm_forced_when_all_nonpositive [OF h] c n h show ?thesis by auto
qed

section \<open>Properties of the disambiguation rule\<close>

lemma k_sad_not_melancholic: "k_sad \<noteq> k_melancholic"
  by (simp add: cn_keys)

lemma lookup_converted:
  "map_of (default_calm (clamped_scores kvs)) (ascii ''happy'') = Some (clamped kvs k_happy)"
  "map_of (default_calm (clamped_scores kvs)) (ascii ''angry'') = Some (clamped kvs k_angry)"
  "map_of (default_calm (clamped_scores kvs)) (ascii ''sad'') = Some (clamped kvs k_sad)"
  "map_of (default_calm (clamped_scores kvs)) (ascii ''afraid'') = Some (clamped kvs k_afraid)"
  "map_of (default_calm (clamped_scores kvs)) (ascii ''disgusted'')
     = Some (clamped kvs k_disgusted)"
  "map_of (default_calm (clamped_scores kvs)) (ascii ''melancholic'')
     = Some (clamped kvs k_melancholic)"
  "map_of (default_calm (clamped_scores kvs)) (ascii ''surprised'')
     = Some (clamped kvs k_surprised)"
  "map_of (default_calm (clamped_scores kvs)) (ascii ''calm'')
     = Some (if all_nonpositive kvs then Fin 1 else clamped kvs k_calm)"
  by (simp_all add: default_calm_scores) (simp_all add: clamped_scores_def)

lemma swap_dict: "swap_sad_melancholic (PyDict kvs) = Inr (PyDict (swapped kvs))"
  by (simp add: swap_sad_melancholic_def swapped_def)

lemma map_of_swapped:
  "map_of (swapped kvs) k =
     (if k = k_melancholic
      then Some (case map_of kvs k_sad of None \<Rightarrow> PyFloat (Fin 0) | Some v \<Rightarrow> v)
      else if k = k_sad
      then Some (case map_of kvs k_melancholic of None \<Rightarrow> PyFloat (Fin 0) | Some v \<Rightarrow> v)
      else map_of kvs k)"
  by (simp add: swapped_def update_conv')

lemma score_swapped:
  "score (swapped kvs) k =
     (if k = k_melancholic then score kvs k_sad
      else if k = k_sad then score kvs k_melancholic
      else score kvs k)"
  by (simp add: score_def map_of_swapped)

lemma clamped_swapped:
  "clamped (swapped kvs) k =
     (if k = k_melancholic then clamped kvs k_sad
      else if k = k_sad then clamped kvs k_melancholic
      else clamped kvs k)"
  by (simp add: clamped_def score_swapped)

lemma raw_swapped: "raw_classification kvs \<Longrightarrow> raw_classification (swapped kvs)"
  by (simp add: raw_classification_def desired_vector_order_def score_swapped)

lemma all_nonpositive_swapped: "all_nonpositive (swapped kvs) = all_nonpositive kvs"
  by (auto simp: all_nonpositive_def desired_vector_order_def clamped_swapped)

lemma converted_swapped:
  "map_of (default_calm (clamped_scores (swapped kvs))) label =
     (if label = ascii ''sad''
      then map_of (default_calm (clamped_scores kvs)) (ascii ''melancholic'')
      else if label = ascii ''melancholic''
      then map_of (default_calm (clamped_scores kvs)) (ascii ''sad'')
      else map_of (default_calm (clamped_scores kvs)) label)"
  by (simp add: default_calm_scores all_nonpositive_swapped)
    (simp add: clamped_scores_def clamped_swapped cn_keys)

subsection \<open>The sample model, evaluated\<close>

lemmas sample_defs =
  sample_builtins_def json_examples_def decimal_float_def float_of_int_sample_def
  ascii_digit_def digits_value_def ascii_lower_def sample_llm_def sample_generate_def
  sample_decode_def sample_content_def

lemmas regex_defs = match_here_def label_char_def number_char_def isspace_def

lemmas convert_defs =
  convert_def desired_vector_order_def convert_item_def cn_key_to_en_def cn_keys
  clamp_score_def clamp_def py_max_def py_min_def max_score_def min_score_def dict_of_def
  default_calm_def

lemma sample_finditer:
  "finditer sample_builtins sample_content
     = [(k_sad, ascii ''0.9''), (k_melancholic, ascii ''0.2'')]"
  by (simp add: sample_defs regex_defs cn_keys ascii_def)

lemma sample_parse_content:
  "parse_content sample_builtins sample_content
     = Inr (PyDict [(k_sad, PyFloat (Fin (9 / 10))), (k_melancholic, PyFloat (Fin (1 / 5)))])"
proof -
  have j: "json_loads sample_builtins sample_content = None"
    by (simp add: sample_defs cn_keys ascii_def)
  have f: "float_of_str sample_builtins (ascii ''0.9'') = Some (Fin (9 / 10))"
    "float_of_str sample_builtins (ascii ''0.2'') = Some (Fin (1 / 5))"
    by (simp_all add: sample_defs ascii_def)
  show ?thesis
    by (simp add: parse_content_def fallback_def fallback_item_def sample_finditer dict_of_def
        j f cn_keys)
qed

lemma sample_raw:
  "raw_classification [(k_sad, PyFloat (Fin (9 / 10))), (k_melancholic, PyFloat (Fin (1 / 5)))]"
  by (simp add: raw_classification_def desired_vector_order_def score_def cn_keys)

lemma sample_generate_ok:
  "text_input \<noteq> ascii ''boom'' \<Longrightarrow> generate sample_llm text_input = Inr [3, 151668, 7, 8]"
  by (simp add: sample_llm_def sample_generate_def)

lemma sample_answer: "drop (answer_index [3, 151668, 7, 8]) [3, 151668, 7, 8] = [7, 8]"
  by (simp add: answer_index_def)

lemma sample_decode_ok: "decode sample_llm [7, 8] = Inr sample_content"
  by (simp add: sample_llm_def sample_decode_def)

lemma gloomy_has_word: "has_melancholic_word sample_builtins (ascii ''So GLOOMY today'')"
  by (simp add: has_melancholic_word_def melancholic_words_def sample_defs cn_keys ascii_def)

lemma fine_has_no_word: "\<not> has_melancholic_word sample_builtins (ascii ''fine'')"
  by (simp add: has_melancholic_word_def melancholic_words_def sample_defs cn_keys ascii_def)

lemma sample_inference_gloomy:
  "inference sample_builtins sample_llm (ascii ''So GLOOMY today'')
     = Inr [(ascii ''happy'', Fin 0), (ascii ''angry'', Fin 0), (ascii ''sad'', Fin (1 / 5)),
            (ascii ''afraid'', Fin 0), (ascii ''disgusted'', Fin 0),
            (ascii ''melancholic'', Fin (9 / 10)), (ascii ''surprised'', Fin 0),
            (ascii ''calm'', Fin 0)]"
proof -
  have g: "generate sample_llm (ascii ''So GLOOMY today'') = Inr [3, 151668, 7, 8]"
    by (rule sample_generate_ok) (simp add: ascii_def)
  have s: "disambiguate sample_builtins (ascii ''So GLOOMY today'')
      (PyDict [(k_sad, PyFloat (Fin (9 / 10))), (k_melancholic, PyFloat (Fin (1 / 5)))])
      = Inr (PyDict [(k_sad, PyFloat (Fin (1 / 5))), (k_melancholic, PyFloat (Fin (9 / 10)))])"
    by (simp add: disambiguate_def gloomy_has_word swap_sad_melancholic_def cn_keys)
  have c: "convert
      (PyDict [(k_sad, PyFloat (Fin (1 / 5))), (k_melancholic, PyFloat (Fin (9 / 10)))])
     = Inr [(ascii ''happy'', Fin 0), (ascii ''angry'', Fin 0), (ascii ''sad'', Fin (1 / 5)),
            (ascii ''afraid'', Fin 0), (ascii ''disgusted'', Fin 0),
            (ascii ''melancholic'', Fin (9 / 10)), (ascii ''surprised'', Fin 0),
            (ascii ''calm'', Fin 0)]"
    by (simp add: convert_defs)
  show ?thesis
    by (simp add: inference_def g sample_answer sample_decode_ok sample_parse_content s c)
qed

lemma sample_inference_fine:
  "inference sample_builtins sample_llm (ascii ''fine'')
     = Inr [(ascii ''happy'', Fin 0), (ascii ''angry'', Fin 0), (ascii ''sad'', Fin (9 / 10)),
            (ascii ''afraid'', Fin 0), (ascii ''disgusted'', Fin 0),
            (ascii ''melancholic'', Fin (1 / 5)), (ascii ''surprised'', Fin 0),
            (ascii ''calm'', Fin 0)]"
proof -
  have g: "generate sample_llm (ascii ''fine'') = Inr [3, 151668, 7, 8]"
    by (rule sample_generate_ok) (simp add: ascii_def)
  have c: "convert
      (PyDict [(k_sad, PyFloat (Fin (9 / 10))), (k_melancholic, PyFloat (Fin (1 / 5)))])
     = Inr [(ascii ''happy'', Fin 0), (ascii ''angry'', Fin 0), (ascii ''sad'', Fin (9 / 10)),
            (ascii ''afraid'', Fin 0), (ascii ''disgusted'', Fin 0),
            (ascii ''melancholic'', Fin (1 / 5)), (ascii ''surprised'', Fin 0),
            (ascii ''calm'', Fin 0)]"
    by (simp add: convert_defs)
  show ?thesis
    by (simp add: inference_def g sample_answer sample_decode_ok sample_parse_content
        disambiguate_def fine_has_no_word c)
qed

lemma sample_inference_boom:
  "inference sample_builtins sample_llm (ascii ''boom'')
     = Inl (OtherException ''generation failed'')"
  by (simp add: inference_def sample_llm_def sample_generate_def)

subsection \<open>The swap\<close>

text \<open>
  Claim C7. Let the model answer, the answer parse to a dict, and the dict be a raw
  classification. If the lower-cased text contains a trigger word, the result of
  \<open>inference\<close> is the conversion of the mapping with the scores of \<open>sad\<close> and \<open>melancholic\<close>
  exchanged: \<open>sad\<close> gets the clamped score the mapping gave \<open>melancholic\<close> and the reverse, and
  every other label is as without the swap; raw scores \<open>sad = 0.9\<close>, \<open>melancholic = 0.2\<close>
  give \<open>melancholic = 0.9\<close>, \<open>sad = 0.2\<close>. If it contains none, the result is the conversion
  of the mapping as it is.
\<close>

theorem swap_before_conversion:
  assumes "generate M text_input = Inr output_ids"
    and "decode M (drop (answer_index output_ids) output_ids) = Inr content"
    and "parse_content B content = Inr (PyDict kvs)"
    and "raw_classification kvs"
  shows "\<exists>d0 d. convert (PyDict kvs) = Inr d0 \<and> inference B M text_input = Inr d
     \<and> (if has_melancholic_word B text_input
         then map_of d (ascii ''sad'') = Some (clamped kvs k_melancholic)
            \<and> map_of d (ascii ''melancholic'') = Some (clamped kvs k_sad)
            \<and> (\<forall>label. label \<noteq> ascii ''sad'' \<and> label \<noteq> ascii ''melancholic''
                  \<longrightarrow> map_of d label = map_of d0 label)
         else d = d0
            \<and> map_of d (ascii ''sad'') = Some (clamped kvs k_sad)
            \<and> map_of d (ascii ''melancholic'') = Some (clamped kvs k_melancholic))
     \<and> (score kvs k_sad = Some (Fin 0.9) \<and> score kvs k_melancholic = Some (Fin 0.2)
          \<and> has_melancholic_word B text_input
         \<longrightarrow> map_of d (ascii ''melancholic'') = Some (Fin 0.9)
           \<and> map_of d (ascii ''sad'') = Some (Fin 0.2))"
proof -
  have c0: "convert (PyDict kvs) = Inr (default_calm (clamped_scores kvs))"
    by (rule convert_raw [OF assms(4)])
  have v: "clamped kvs k_sad = Fin 0.9" if "score kvs k_sad = Some (Fin 0.9)"
    using that
    by (simp add: clamped_def clamp_def py_max_def py_min_def max_score_def min_score_def)
  have w: "clamped kvs k_melancholic = Fin 0.2" if "score kvs k_melancholic = Some (Fin 0.2)"
    using that
    by (simp add: clamped_def clamp_def py_max_def py_min_def max_score_def min_score_def)
  show ?thesis
  proof (cases "has_melancholic_word B text_input")
    case True
    have "convert (PyDict (swapped kvs)) = Inr (default_calm (clamped_scores (swapped kvs)))"
      by (rule convert_raw [OF raw_swapped [OF assms(4)]])
    with True assms have i: "inference B M text_input
        = Inr (default_calm (clamped_scores (swapped kvs)))"
      by (simp add: inference_def disambiguate_def swap_dict)
    from True c0 i v w show ?thesis
      by (simp add: converted_swapped lookup_converted clamped_swapped k_sad_not_melancholic)
  next
    case False
    with assms c0 have i: "inference B M text_input = Inr (default_calm (clamped_scores kvs))"
      by (simp add: inference_def disambiguate_def)
    from False c0 i show ?thesis
      by (simp add: lookup_converted)
  qed
qed

theorem swap_before_conversion_witness:
  "generate sample_llm (ascii ''So GLOOMY today'') = Inr [3, 151668, 7, 8]
   \<and> decode sample_llm (drop (answer_index [3, 151668, 7, 8]) [3, 151668, 7, 8])
       = Inr sample_content
   \<and> parse_content sample_builtins sample_content
       = Inr (PyDict [(k_sad, PyFloat (Fin 0.9)), (k_melancholic, PyFloat (Fin 0.2))])
   \<and> raw_classification [(k_sad, PyFloat (Fin 0.9)), (k_melancholic, PyFloat (Fin 0.2))]
   \<and> has_melancholic_word sample_builtins (ascii ''So GLOOMY today'')
   \<and> inference sample_builtins sample_llm (ascii ''So GLOOMY today'')
       = Inr [(ascii ''happy'', Fin 0), (ascii ''angry'', Fin 0), (ascii ''sad'', Fin 0.2),
              (ascii ''afraid'', Fin 0), (ascii ''disgusted'', Fin 0),
              (ascii ''melancholic'', Fin 0.9), (ascii ''surprised'', Fin 0),
              (ascii ''calm'', Fin 0)]
   \<and> inference sample_builtins sample_llm (ascii ''fine'')
       = Inr [(ascii ''happy'', Fin 0), (ascii ''angry'', Fin 0), (ascii ''sad'', Fin 0.9),
              (ascii ''afraid'', Fin 0), (ascii ''disgusted'', Fin 0),
              (ascii ''melancholic'', Fin 0.2), (ascii ''surprised'', Fin 0),
              (ascii ''calm'', Fin 0)]"
proof -
  have g: "generate sample_llm (ascii ''So GLOOMY today'') = Inr [3, 151668, 7, 8]"
    by (rule sample_generate_ok) (simp add: ascii_def)
  have d: "decode sample_llm (drop (answer_index [3, 151668, 7, 8]) [3, 151668, 7, 8])
       = Inr sample_content"
    by (simp add: sample_answer sample_decode_ok)
  from swap_before_conversion [OF g d sample_parse_content sample_raw]
  show ?thesis
    using g d sample_parse_content sample_raw gloomy_has_word sample_inference_gloomy
      sample_inference_fine
    by simp
qed

text \<open>
  Claim C10. When the lower-cased text contains a trigger word, the swap of a dict always
  succeeds, and afterwards both keys are bound: the sadness key to the old score of the
  low-spirits key, the low-spirits key to the old score of the sadness key, with \<open>0.0\<close> for
  a key that was missing; all other keys are as before. A mapping with the sadness key only
  ends with the sadness key at \<open>0.0\<close> and the low-spirits key at the old sadness score.
\<close>

theorem swap_total_over_missing_keys:
  assumes "has_melancholic_word B text_input"
  shows "\<exists>kvs'. disambiguate B text_input (PyDict kvs) = Inr (PyDict kvs')
     \<and> map_of kvs' k_sad
         = Some (case map_of kvs k_melancholic of None \<Rightarrow> PyFloat (Fin 0) | Some v \<Rightarrow> v)
     \<and> map_of kvs' k_melancholic
         = Some (case map_of kvs k_sad of None \<Rightarrow> PyFloat (Fin 0) | Some v \<Rightarrow> v)
     \<and> (\<forall>k. k \<noteq> k_sad \<and> k \<noteq> k_melancholic \<longrightarrow> map_of kvs' k = map_of kvs k)
     \<and> disambiguate B text_input (PyDict [(k_sad, old_sad)])
         = Inr (PyDict [(k_sad, PyFloat (Fin 0)), (k_melancholic, old_sad)])"
proof -
  have d: "disambiguate B text_input (PyDict m) = Inr (PyDict (swapped m))" for m
    using assms by (simp add: disambiguate_def swap_dict)
  have o: "swapped [(k_sad, old_sad)] = [(k_sad, PyFloat (Fin 0)), (k_melancholic, old_sad)]"
    by (simp add: swapped_def cn_keys)
  show ?thesis
    by (simp add: d o) (simp add: map_of_swapped k_sad_not_melancholic)
qed

theorem swap_total_over_missing_keys_witness:
  "has_melancholic_word sample_builtins (ascii ''I feel so depressed today'')
   \<and> disambiguate sample_builtins (ascii ''I feel so depressed today'')
         (PyDict [(k_sad, PyFloat (Fin 0.7))])
       = Inr (PyDict [(k_sad, PyFloat (Fin 0)), (k_melancholic, PyFloat (Fin 0.7))])
   \<and> disambiguate sample_builtins (ascii ''I feel so depressed today'')
         (PyDict [(k_happy, PyFloat (Fin 0.3))])
       = Inr (PyDict [(k_happy, PyFloat (Fin 0.3)), (k_sad, PyFloat (Fin 0)),
                      (k_melancholic, PyFloat (Fin 0))])"
proof -
  have h: "has_melancholic_word sample_builtins (ascii ''I feel so depressed today'')"
    by (simp add: has_melancholic_word_def melancholic_words_def sample_defs cn_keys ascii_def)
  have e: "disambiguate sample_builtins (ascii ''I feel so depressed today'')
         (PyDict [(k_happy, PyFloat (Fin 0.3))])
       = Inr (PyDict [(k_happy, PyFloat (Fin 0.3)), (k_sad, PyFloat (Fin 0)),
                      (k_melancholic, PyFloat (Fin 0))])"
    by (simp add: disambiguate_def h swap_sad_melancholic_def cn_keys)
  from swap_total_over_missing_keys [OF h, of "[]" "PyFloat (Fin 0.7)"] h e
  show ?thesis by auto
qed

section \<open>Properties of the fallback wrapper\<close>

lemma degraded_calls:
  "inference_calls P (SafeObj None x) texts = map (\<lambda>t. Inr neutral) texts"
  by (induction texts) simp_all

text \<open>
  Claim C8. Wrapping is idempotent: wrapping what a first wrapping left changes nothing. A
  class that carries the marker is returned as it is, with the layers it had; a plain class
  wrapped twice has one \<open>SafeQwenEmotion\<close> layer. The class being the same, so is all it
  does: construction and every sequence of \<open>inference\<close> calls give the same outcomes.
\<close>

theorem wrap_idempotent:
  "wrap_qwen_with_fallback (wrap_qwen_with_fallback QwenEmotion)
     = wrap_qwen_with_fallback QwenEmotion
   \<and> (\<forall>cls. is_safe_wrapper cls \<longrightarrow> wrap_qwen_with_fallback (Some cls) = Some cls)
   \<and> (\<forall>cls. is_safe_wrapper cls \<longrightarrow>
         map_option fallback_layers (wrap_qwen_with_fallback (Some cls))
           = Some (fallback_layers cls))
   \<and> (\<forall>c. wrap_qwen_with_fallback (wrap_qwen_with_fallback (Some (Plain c)))
           = Some (SafeQwenEmotion (Plain c)))
   \<and> (\<forall>P model_dir texts.
         map_option (\<lambda>cls. case init_qwen P cls model_dir of
                              (Inl e, out) \<Rightarrow> Inl e
                            | (Inr obj, out) \<Rightarrow> Inr (inference_calls P obj texts))
           (wrap_qwen_with_fallback (wrap_qwen_with_fallback QwenEmotion))
         = map_option (\<lambda>cls. case init_qwen P cls model_dir of
                              (Inl e, out) \<Rightarrow> Inl e
                            | (Inr obj, out) \<Rightarrow> Inr (inference_calls P obj texts))
           (wrap_qwen_with_fallback QwenEmotion))"
proof -
  have i: "wrap_qwen_with_fallback (wrap_qwen_with_fallback QwenEmotion)
     = wrap_qwen_with_fallback QwenEmotion"
    by (cases QwenEmotion) (simp_all add: wrap_qwen_with_fallback_def)
  show ?thesis
    by (simp only: i) (simp add: wrap_qwen_with_fallback_def)
qed

theorem wrap_idempotent_witness:
  "is_safe_wrapper (SafeQwenEmotion (Plain ()))
   \<and> wrap_qwen_with_fallback (Some (SafeQwenEmotion (Plain ())))
       = Some (SafeQwenEmotion (Plain ()))
   \<and> wrap_qwen_with_fallback (Some (Plain ())) = Some (SafeQwenEmotion (Plain ()))
   \<and> wrap_qwen_with_fallback (wrap_qwen_with_fallback (Some (Plain ())))
       = Some (SafeQwenEmotion (Plain ()))
   \<and> map_option fallback_layers
        (wrap_qwen_with_fallback (wrap_qwen_with_fallback (Some (Plain ())))) = Some 1"
  using wrap_idempotent [of "Some (Plain ())"]
  by (simp add: wrap_qwen_with_fallback_def)

text \<open>
  Claim C4. If the constructor of the wrapped class raises an exception (an instance of
  \<open>Exception\<close>, which is what the \<open>except\<close> clause catches), constructing the wrapper does not
  raise: it gives an instance without an inner classifier that records the exception, and
  prints one message. Every later \<open>inference\<close> call on that instance returns \<open>{"calm": 1.0}\<close>,
  the mapping that binds \<open>calm\<close> to \<open>1.0\<close> and no other label (so that every other label
  reads as \<open>0.0\<close>), leaves the instance as it is and prints nothing, whatever the wrapped
  class would do: the inner classifier is not called and nothing is raised.
\<close>

theorem degraded_returns_neutral:
  assumes "init_qwen P original_cls model_dir = (Inl exc, out)" and "is_Exception exc"
  shows "init_qwen P (SafeQwenEmotion original_cls) model_dir
           = (Inr (SafeObj None (Some exc)), out @ [Unavailable exc])
     \<and> (\<forall>P' text_input. qwen_inference P' (SafeObj None (Some exc)) text_input
           = (Inr neutral, SafeObj None (Some exc), []))
     \<and> (\<forall>P' texts. inference_calls P' (SafeObj None (Some exc)) texts
           = map (\<lambda>t. Inr neutral) texts)
     \<and> neutral = [(ascii ''calm'', Fin 1)]
     \<and> (\<forall>label. emotion_score neutral label = (if label = ascii ''calm'' then Fin 1 else Fin 0))"
  using assms by (simp add: degraded_calls) (simp add: neutral_def emotion_score_def)

theorem degraded_returns_neutral_witness:
  "init_qwen (CPUQwenEmotion sample_builtins missing_model) (Plain ()) (ascii ''checkpoints'')
     = (Inl (OtherException ''model not found''), [])
   \<and> is_Exception (OtherException ''model not found'')
   \<and> init_qwen (CPUQwenEmotion sample_builtins missing_model) (SafeQwenEmotion (Plain ()))
       (ascii ''checkpoints'')
     = (Inr (SafeObj None (Some (OtherException ''model not found''))),
        [Unavailable (OtherException ''model not found'')])
   \<and> inference_calls (CPUQwenEmotion sample_builtins loaded_model)
       (SafeObj None (Some (OtherException ''model not found'')))
       [ascii ''So GLOOMY today'', ascii ''boom'']
     = [Inr [(ascii ''calm'', Fin 1)], Inr [(ascii ''calm'', Fin 1)]]"
proof -
  have h: "init_qwen (CPUQwenEmotion sample_builtins missing_model) (Plain ())
      (ascii ''checkpoints'') = (Inl (OtherException ''model not found''), [])"
    by (simp add: CPUQwenEmotion_def missing_model_def)
  have e: "is_Exception (OtherException ''model not found'')"
    by simp
  from degraded_returns_neutral [OF h e] h show ?thesis
    by (simp add: neutral_def)
qed

text \<open>
  Claim C5. Let the wrapper hold an inner classifier. If a call of the inner \<open>inference\<close>
  raises an exception (an instance of \<open>Exception\<close>), the wrapper's call returns
  \<open>{"calm": 1.0}\<close> instead of raising and prints one message; the wrapper still holds the
  same inner classifier (in the state that call left it in) and the same \<open>_inner_exc\<close>. A
  later call on the wrapper delegates again and returns what the inner classifier returns.
\<close>

theorem ready_catches_inference_failure:
  assumes "qwen_inference P inner t1 = (Inl exc, inner1, out1)" and "is_Exception exc"
    and "qwen_inference P inner1 t2 = (Inr d, inner2, out2)"
  shows "qwen_inference P (SafeObj (Some inner) x) t1
           = (Inr neutral, SafeObj (Some inner1) x, out1 @ [InferenceFailed exc])
     \<and> qwen_inference P (SafeObj (Some inner1) x) t2 = (Inr d, SafeObj (Some inner2) x, out2)
     \<and> inference_calls P (SafeObj (Some inner) x) [t1, t2] = [Inr neutral, Inr d]
     \<and> neutral = [(ascii ''calm'', Fin 1)]"
  using assms by (simp add: neutral_def)

theorem ready_catches_inference_failure_witness:
  "qwen_inference (CPUQwenEmotion sample_builtins loaded_model) (PlainObj sample_llm)
       (ascii ''boom'')
     = (Inl (OtherException ''generation failed''), PlainObj sample_llm, [])
   \<and> is_Exception (OtherException ''generation failed'')
   \<and> init_qwen (CPUQwenEmotion sample_builtins loaded_model) (SafeQwenEmotion (Plain ()))
       (ascii ''checkpoints'')
     = (Inr (SafeObj (Some (PlainObj sample_llm)) None), [])
   \<and> inference_calls (CPUQwenEmotion sample_builtins loaded_model)
       (SafeObj (Some (PlainObj sample_llm)) None) [ascii ''boom'', ascii ''So GLOOMY today'']
     = [Inr [(ascii ''calm'', Fin 1)],
        Inr [(ascii ''happy'', Fin 0), (ascii ''angry'', Fin 0), (ascii ''sad'', Fin 0.2),
             (ascii ''afraid'', Fin 0), (ascii ''disgusted'', Fin 0),
             (ascii ''melancholic'', Fin 0.9), (ascii ''surprised'', Fin 0),
             (ascii ''calm'', Fin 0)]]"
proof -
  let ?P = "CPUQwenEmotion sample_builtins loaded_model"
  have a: "qwen_inference ?P (PlainObj sample_llm) (ascii ''boom'')
     = (Inl (OtherException ''generation failed''), PlainObj sample_llm, [])"
    by (simp add: CPUQwenEmotion_def sample_inference_boom)
  have e: "is_Exception (OtherException ''generation failed'')"
    by simp
  have b: "qwen_inference ?P (PlainObj sample_llm) (ascii ''So GLOOMY today'')
     = (Inr [(ascii ''happy'', Fin 0), (ascii ''angry'', Fin 0), (ascii ''sad'', Fin (1 / 5)),
             (ascii ''afraid'', Fin 0), (ascii ''disgusted'', Fin 0),
             (ascii ''melancholic'', Fin (9 / 10)), (ascii ''surprised'', Fin 0),
             (ascii ''calm'', Fin 0)], PlainObj sample_llm, [])"
    by (simp add: CPUQwenEmotion_def sample_inference_gloomy)
  have c: "init_qwen ?P (SafeQwenEmotion (Plain ())) (ascii ''checkpoints'')
     = (Inr (SafeObj (Some (PlainObj sample_llm)) None), [])"
    by (simp add: CPUQwenEmotion_def loaded_model_def)
  from ready_catches_inference_failure [OF a e b, of None] a c show ?thesis
    by (simp add: neutral_def)
qed

section \<open>Properties of the fallback parser\<close>

lemma traverse_error:
  assumes "traverse f xs = Inl e"
  shows "\<exists>x \<in> set xs. f x = Inl e"
  using assms by (induction xs) (auto split: sum.splits)

lemma traverse_fails:
  assumes "x \<in> set xs" and "f x = Inl e"
  shows "\<exists>e'. traverse f xs = Inl e'"
  using assms by (induction xs) (auto split: sum.splits)

lemma traverse_length: "traverse f xs = Inr ys \<Longrightarrow> length ys = length xs"
  by (induction xs arbitrary: ys) (auto split: sum.splits)

text \<open>
  What holds of the fallback: a text without a match gives the empty dict, the only
  exception it can raise is the \<open>ValueError\<close> of \<open>float\<close>, and it gives a dict when
  \<open>float\<close> reads the number of every match.
\<close>

lemma fallback_no_match: "finditer B content = [] \<Longrightarrow> fallback B content = Inr (PyDict [])"
  by (simp add: fallback_def dict_of_def)

lemma fallback_raises_only_ValueError:
  assumes "fallback B content = Inl e"
  shows "e = ValueError ''could not convert string to float''"
proof -
  from assms have "traverse (fallback_item B) (finditer B content) = Inl e"
    by (simp add: fallback_def split: sum.splits)
  then obtain m where "fallback_item B m = Inl e"
    using traverse_error [of "fallback_item B" "finditer B content" e] by auto
  then show ?thesis
    by (auto simp: fallback_item_def split: sum.splits option.splits)
qed

lemma traverse_succeeds:
  assumes "\<forall>x \<in> set xs. \<exists>y. f x = Inr y"
  shows "\<exists>ys. traverse f xs = Inr ys"
  using assms by (induction xs) auto

lemma fallback_succeeds:
  assumes "\<forall>m \<in> set (finditer B content). float_of_str B (snd m) \<noteq> None"
  shows "\<exists>kvs. fallback B content = Inr (PyDict kvs)"
proof -
  from assms have "\<forall>m \<in> set (finditer B content). \<exists>y. fallback_item B m = Inr y"
    by (auto simp: fallback_item_def)
  then obtain pairs where "traverse (fallback_item B) (finditer B content) = Inr pairs"
    using traverse_succeeds [of "finditer B content" "fallback_item B"] by auto
  then show ?thesis
    by (simp add: fallback_def)
qed

lemma finditer_lone_dot: "finditer B (ascii ''a:.'') = [(ascii ''a'', ascii ''.'')]"
  by (simp add: match_here_def label_char_def number_char_def isspace_def ascii_def)

text \<open>
  Claim C3, at the model output \<open>a:.\<close>. The text is not JSON, so the fallback runs. The
  pattern matches: the label is \<open>a\<close> and the number group, one or more digits or dots, is the
  lone dot. \<open>float(".")\<close> raises \<open>ValueError\<close>, nothing in \<open>inference\<close> catches it, and the
  fallback ends with that exception instead of a mapping.
\<close>

theorem fallback_raises_on_lone_dot:
  assumes "json_loads B (ascii ''a:.'') = None" and "float_of_str B (ascii ''.'') = None"
  shows "finditer B (ascii ''a:.'') = [(ascii ''a'', ascii ''.'')]
     \<and> fallback B (ascii ''a:.'') = Inl (ValueError ''could not convert string to float'')
     \<and> parse_content B (ascii ''a:.'')
         = Inl (ValueError ''could not convert string to float'')"
  using assms
  by (simp add: parse_content_def fallback_def fallback_item_def finditer_lone_dot)

theorem fallback_raises_on_lone_dot_witness:
  "json_loads sample_builtins (ascii ''a:.'') = None
   \<and> float_of_str sample_builtins (ascii ''.'') = None
   \<and> parse_content sample_builtins (ascii ''a:.'')
       = Inl (ValueError ''could not convert string to float'')"
proof -
  have j: "json_loads sample_builtins (ascii ''a:.'') = None"
    by (simp add: sample_builtins_def json_examples_def ascii_def)
  have f: "float_of_str sample_builtins (ascii ''.'') = None"
    by (simp add: sample_builtins_def decimal_float_def ascii_digit_def ascii_def)
  from fallback_raises_on_lone_dot [OF j f] j f show ?thesis
    by simp
qed

section \<open>Properties of \<open>_parse_vector\<close> and \<open>predict\<close>\<close>

lemma iterate_truthy: "truthy v \<Longrightarrow> iterate v = Inr vals \<Longrightarrow> vals \<noteq> []"
  by (cases v) auto

lemma parse_vector_nonempty:
  assumes "parse_vector B raw = Inr (Some vs)"
  shows "vs \<noteq> []"
proof -
  from assms obtain v vals where "truthy v" and "iterate v = Inr vals"
    and "traverse (py_float B) vals = Inr vs"
    by (auto simp: parse_vector_def Let_def split: option.splits if_splits sum.splits)
  then show ?thesis
    using iterate_truthy [of v vals] traverse_length [of "py_float B" vals vs] by auto
qed

lemma is_prefix_nonempty: "is_prefix [c] s \<Longrightarrow> s \<noteq> []"
  by (cases s) auto

text \<open>
  Where the \<open>except\<close> clause does its work: a text that starts with a bracket and is not
  JSON, and a comma-separated text with a token that \<open>float\<close> cannot read, both raise the
  \<open>ValueError\<close> of \<open>_parse_vector\<close>.
\<close>

lemma json_path_invalid:
  assumes "is_prefix [91] (strip raw0)" and "json_loads B (strip raw0) = None"
  shows "parse_vector B (Some raw0) = Inl invalid_vector_format"
proof -
  from assms(1) have s: "strip raw0 \<noteq> []" by (rule is_prefix_nonempty)
  then have r: "raw0 \<noteq> []" by (auto simp: strip_def)
  from assms s r show ?thesis
    by (simp add: parse_vector_def try_values_def)
qed

lemma comma_path_invalid:
  assumes s: "strip raw0 \<noteq> []" and p: "\<not> is_prefix [91] (strip raw0)"
    and t: "tok \<in> set (split 44 (strip raw0))" "strip tok \<noteq> []"
    and f: "float_of_str B tok = None"
  shows "parse_vector B (Some raw0) = Inl invalid_vector_format"
proof -
  let ?toks = "filter (\<lambda>tok. strip tok \<noteq> []) (split 44 (strip raw0))"
  let ?f = "\<lambda>tok. py_float B (PyStr tok)"
  from s have r: "raw0 \<noteq> []" by (auto simp: strip_def)
  from t have "tok \<in> set ?toks" by simp
  moreover from f have "?f tok = Inl (ValueError ''could not convert string to float'')"
    by simp
  ultimately obtain e where e: "traverse ?f ?toks = Inl e"
    using traverse_fails [of tok ?toks ?f] by auto
  then obtain x where "?f x = Inl e"
    using traverse_error [of ?f ?toks e] by auto
  then have "is_ValueError e"
    by (auto split: option.splits)
  with e s p r show ?thesis
    by (simp add: parse_vector_def try_values_def)
qed

text \<open>
  Where it does not: the elements of a decoded JSON list are converted after the \<open>try\<close>
  block, so the exception of a failing element leaves \<open>_parse_vector\<close> as it is.
\<close>

lemma json_element_escapes:
  assumes "is_prefix [91] (strip raw0)" and "json_loads B (strip raw0) = Some (PyList vals)"
    and "vals \<noteq> []" and "traverse (py_float B) vals = Inl e"
  shows "parse_vector B (Some raw0) = Inl e"
proof -
  from assms(1) have s: "strip raw0 \<noteq> []" by (rule is_prefix_nonempty)
  then have r: "raw0 \<noteq> []" by (auto simp: strip_def)
  from assms s r show ?thesis
    by (simp add: parse_vector_def try_values_def)
qed

lemma strip_null: "strip (ascii ''[null]'') = ascii ''[null]''"
  by (simp add: strip_def isspace_def ascii_def)

text \<open>
  Claim C6, at the input \<open>[null]\<close>. The text starts with a bracket and is JSON: \<open>json.loads\<close>
  gives \<open>[None]\<close>. It is not a numeric array, and what is raised is the \<open>TypeError\<close> of
  \<open>float(None)\<close> in the last line of \<open>_parse_vector\<close>, not the \<open>ValueError\<close> of the \<open>except\<close>
  clause; \<open>predict\<close> lets it through.
\<close>

theorem json_null_raises_TypeError:
  assumes "json_loads B (ascii ''[null]'') = Some (PyList [PyNone])"
  shows "parse_vector B (Some (ascii ''[null]'')) = Inl TypeError
     \<and> TypeError \<noteq> invalid_vector_format
     \<and> directive B mkdtemp (r\<lparr>emotion_vector := Some (ascii ''[null]'')\<rparr>) = Inl TypeError
     \<and> predict B mkdtemp tts_infer (r\<lparr>emotion_vector := Some (ascii ''[null]'')\<rparr>)
         = Inl TypeError"
proof -
  have p: "is_prefix [91] (strip (ascii ''[null]''))"
    by (simp add: strip_null) (simp add: ascii_def)
  have j: "json_loads B (strip (ascii ''[null]'')) = Some (PyList [PyNone])"
    by (simp add: strip_null assms)
  have "parse_vector B (Some (ascii ''[null]'')) = Inl TypeError"
    by (rule json_element_escapes [OF p j]) simp_all
  then show ?thesis
    by (simp add: directive_def predict_def invalid_vector_format_def)
qed

theorem json_null_raises_TypeError_witness:
  "json_loads sample_builtins (ascii ''[null]'') = Some (PyList [PyNone])
   \<and> parse_vector sample_builtins (Some (ascii ''[null]'')) = Inl TypeError
   \<and> predict sample_builtins (Inr (ascii ''/tmp/t'')) sample_tts
       (sample_request\<lparr>emotion_vector := Some (ascii ''[null]'')\<rparr>) = Inl TypeError"
proof -
  have h: "json_loads sample_builtins (ascii ''[null]'') = Some (PyList [PyNone])"
    by (simp add: sample_builtins_def json_examples_def)
  from json_null_raises_TypeError [OF h] h show ?thesis
    by simp
qed

lemma sample_parse_vector:
  "parse_vector sample_builtins (Some (ascii ''[0.1,0.2,0,0,0,0,0,0]''))
     = Inr (Some [Fin (1 / 10), Fin (1 / 5), Fin 0, Fin 0, Fin 0, Fin 0, Fin 0, Fin 0])"
  by (simp add: parse_vector_def try_values_def strip_def isspace_def sample_builtins_def
      json_examples_def float_of_int_sample_def ascii_def)

text \<open>
  Claim C1, at a request that gives both an explicit vector and an emotion text. \<open>predict\<close>
  computes \<open>use_emo_text\<close> from \<open>emotion_text\<close> alone, without looking at the parsed vector.
  So whenever the vector parses to a sequence and the emotion text is not blank, the keyword
  arguments of the one call \<open>tts.infer\<close> carry the sequence as \<open>emo_vector\<close>, unchanged and
  not empty, and carry \<open>use_emo_text = True\<close> with the text as \<open>emo_text\<close>: the engine is told
  to classify the text, although the signature describes \<open>emotion_vector\<close> as weights that
  bypass the classifier.
\<close>

theorem explicit_vector_with_text_sets_use_emo_text:
  assumes "parse_vector B (emotion_vector r) = Inr (Some vs)"
    and "emotion_text r = Some t" and "strip t \<noteq> []"
    and "mkdtemp = Inr tmp_dir"
  shows "\<exists>kwargs. directive B mkdtemp r = Inr kwargs
     \<and> predict B mkdtemp tts_infer r = tts_infer kwargs
     \<and> emo_vector kwargs = Some vs
     \<and> vs \<noteq> []
     \<and> use_emo_text kwargs = True
     \<and> emo_text kwargs = Some t"
  using assms parse_vector_nonempty [OF assms(1)]
  by (simp add: directive_def predict_def build_kwargs_def)

theorem explicit_vector_with_text_sets_use_emo_text_witness:
  "parse_vector sample_builtins (emotion_vector sample_request)
     = Inr (Some [Fin 0.1, Fin 0.2, Fin 0, Fin 0, Fin 0, Fin 0, Fin 0, Fin 0])
   \<and> emotion_text sample_request = Some (ascii ''happy'')
   \<and> strip (ascii ''happy'') \<noteq> []
   \<and> directive sample_builtins (Inr (ascii ''/tmp/t'')) sample_request
     = Inr \<lparr>spk_audio_prompt = ascii ''speaker.wav'',
            infer_text = ascii ''Hello'',
            output_path = ascii ''/tmp/t/output.wav'',
            emo_audio_prompt = None,
            emo_alpha = Fin 1,
            emo_vector = Some [Fin 0.1, Fin 0.2, Fin 0, Fin 0, Fin 0, Fin 0, Fin 0, Fin 0],
            use_emo_text = True,
            emo_text = Some (ascii ''happy''),
            use_random = False,
            interval_silence = 200,
            sampling_kwargs =
              \<lparr>max_text_tokens_per_segment = 120, top_p = Fin 0.8, top_k = 30,
               temperature = Fin 0.8, length_penalty = Fin 0, num_beams = 3,
               repetition_penalty = Fin 10, max_mel_tokens = 1500\<rparr>\<rparr>
   \<and> predict sample_builtins (Inr (ascii ''/tmp/t'')) sample_tts sample_request
       = Inr (ascii ''/tmp/t/output.wav'')"
proof -
  have e: "emotion_vector sample_request = Some (ascii ''[0.1,0.2,0,0,0,0,0,0]'')"
    by (simp add: sample_request_def)
  have p: "parse_vector sample_builtins (emotion_vector sample_request)
     = Inr (Some [Fin (1 / 10), Fin (1 / 5), Fin 0, Fin 0, Fin 0, Fin 0, Fin 0, Fin 0])"
    by (simp add: e sample_parse_vector)
  have t: "emotion_text sample_request = Some (ascii ''happy'')"
    by (simp add: sample_request_def)
  have n: "strip (ascii ''happy'') \<noteq> []"
    by (simp add: strip_def isspace_def ascii_def)
  have m: "(Inr (ascii ''/tmp/t'') :: exc + pystr) = Inr (ascii ''/tmp/t'')"
    by simp
  have d: "directive sample_builtins (Inr (ascii ''/tmp/t'')) sample_request
     = Inr \<lparr>spk_audio_prompt = ascii ''speaker.wav'',
            infer_text = ascii ''Hello'',
            output_path = ascii ''/tmp/t/output.wav'',
            emo_audio_prompt = None,
            emo_alpha = Fin 1,
            emo_vector = Some [Fin 0.1, Fin 0.2, Fin 0, Fin 0, Fin 0, Fin 0, Fin 0, Fin 0],
            use_emo_text = True,
            emo_text = Some (ascii ''happy''),
            use_random = False,
            interval_silence = 200,
            sampling_kwargs =
              \<lparr>max_text_tokens_per_segment = 120, top_p = Fin 0.8, top_k = 30,
               temperature = Fin 0.8, length_penalty = Fin 0, num_beams = 3,
               repetition_penalty = Fin 10, max_mel_tokens = 1500\<rparr>\<rparr>"
    by (simp add: directive_def p build_kwargs_def t n)
      (simp add: sample_request_def ascii_def)
  from explicit_vector_with_text_sets_use_emo_text [OF p t n m, of sample_tts] p t n d
  show ?thesis
    by (auto simp: sample_tts_def ascii_def)
qed

end
